theory Spec2Isabelle
  imports Complex_Main "HOL-Library.Sublist"
begin

section \<open>Python values, exceptions and the file store\<close>

text \<open>
  The scripts of the repository are Python: values are dynamically typed, calibration
  records are pickled dictionaries of numpy arrays, manifests are YAML documents.
  A dictionary is an association list with string keys (the records and manifests of
  the repository use string keys only); a numpy array is the list of its rows.
\<close>

datatype pyval =
    PyNone
  | PyInt int
  | PyFloat real
  | PyStr string
  | PyList "pyval list"
  | PyTuple "pyval list"
  | PyDict "(string \<times> pyval) list"
  | PyArray "real list list"

text \<open>
  The exceptions the modelled statements raise. All of them are subclasses of Python's
  \<open>Exception\<close> except \<open>SystemExit\<close> and \<open>KeyboardInterrupt\<close>, which derive from
  \<open>BaseException\<close> only.
\<close>

datatype exn =
    FileNotFoundError
  | EOFError
  | UnpicklingError
  | YAMLError
  | AttributeError
  | TypeError
  | ValueError
  | IndexError
  | KeyError pyval
  | NameError string
  | Exception string
  | SystemExit
  | KeyboardInterrupt

fun is_Exception :: "exn \<Rightarrow> bool" where
  "is_Exception SystemExit = False"
| "is_Exception KeyboardInterrupt = False"
| "is_Exception _ = True"

fun is_KeyError :: "exn \<Rightarrow> bool" where
  "is_KeyError (KeyError _) = True"
| "is_KeyError _ = False"

text \<open>
  A path is a string. \<open>os.path.join(a, *p)\<close> is the loop of \<open>posixpath.join\<close>: a component
  that starts with the separator replaces what was joined so far, and otherwise the
  component is appended, after a separator unless the path is empty or ends with one.
  (On Windows \<open>ntpath.join\<close> does the same with its own separators and with drives.)
  Two paths are the same file when they are the same string.
\<close>

type_synonym path = string

definition join_step :: "path \<Rightarrow> string \<Rightarrow> path" where
  "join_step path b =
     (if (case b of [] \<Rightarrow> False | c # _ \<Rightarrow> c = CHR ''/'') then b
      else if path = [] \<or> last path = CHR ''/'' then path @ b
      else path @ ''/'' @ b)"

definition os_path_join :: "path \<Rightarrow> string list \<Rightarrow> path" where
  "os_path_join a ps = foldl join_step a ps"

text \<open>
  The store maps the paths of the files that exist to what they hold: nothing yet (the
  file was opened for writing and no record was dumped), a YAML document, the pickle of
  a value, or a pickle that names a callable which raises when the pickle is loaded
  (\<open>pickle.load\<close> runs the callables a pickle names). Directories are not modelled: the
  folder of a file is taken to exist.
\<close>

datatype content = Blank | YamlText pyval | PickleBytes pyval | PickleRaising exn

text \<open>
  What the scripts print: \<open>Text\<close> for a fixed message, and one constructor for each
  \<open>print\<close> statement that formats values. A newline at the start of a message is left out.
\<close>

datatype line =
    Text string
  | Key_line string
  | Array_line "real list list"
  | File_not_found path
  | Load_failed exn
  | Found_intrinsics real real real real
  | Found_size int int
  | Missing_key exn

record world =
  files :: "path \<rightharpoonup> content"
  stdout :: "line list"

definition print :: "line \<Rightarrow> world \<Rightarrow> world" where
  "print l w = w\<lparr>stdout := stdout w @ [l]\<rparr>"

section \<open>visualizePickle.py\<close>

text \<open>
  \<open>pickle.load\<close> on an open file: an empty file and a file that is no pickle raise, and
  so does a pickle whose callable raises, with the callable's exception.
\<close>

fun pickle_load :: "content \<Rightarrow> exn + pyval" where
  "pickle_load Blank = Inl EOFError"
| "pickle_load (YamlText _) = Inl UnpicklingError"
| "pickle_load (PickleBytes v) = Inr v"
| "pickle_load (PickleRaising e) = Inl e"

text \<open>\<open>intrinsics.items()\<close>: only a dictionary has the method.\<close>

fun items :: "pyval \<Rightarrow> exn + (string \<times> pyval) list" where
  "items (PyDict kvs) = Inr kvs"
| "items _ = Inl AttributeError"

text \<open>\<open>np.array2string(value, ...)\<close> reads \<open>value.size\<close>, which only an array has.\<close>

fun array2string :: "pyval \<Rightarrow> exn + real list list" where
  "array2string (PyArray a) = Inr a"
| "array2string _ = Inl AttributeError"

text \<open>The loop over the items prints the key, then the array; it stops at the first raise.\<close>

fun print_items :: "(string \<times> pyval) list \<Rightarrow> world \<Rightarrow> exn option \<times> world" where
  "print_items [] w = (None, w)"
| "print_items ((k, v) # kvs) w =
     (let w1 = print (Key_line k) w in
      case array2string v of
        Inl e \<Rightarrow> (Some e, w1)
      | Inr a \<Rightarrow> print_items kvs (print (Array_line a) w1))"

text \<open>The body of the \<open>try\<close> statement of \<open>load_intrinsics_from_pickle\<close>.\<close>

definition load_body :: "world \<Rightarrow> path \<Rightarrow> (exn + pyval) \<times> world" where
  "load_body w filepath =
     (case files w filepath of
        None \<Rightarrow> (Inl FileNotFoundError, w)
      | Some c \<Rightarrow>
          (case pickle_load c of
             Inl e \<Rightarrow> (Inl e, w)
           | Inr intrinsics \<Rightarrow>
               (let w1 = print (Text ''Successfully loaded intrinsics:'') w in
                case items intrinsics of
                  Inl e \<Rightarrow> (Inl e, w1)
                | Inr kvs \<Rightarrow>
                    (case print_items kvs w1 of
                       (Some e, w2) \<Rightarrow> (Inl e, w2)
                     | (None, w2) \<Rightarrow> (Inr intrinsics, w2)))))"

text \<open>
  The two handlers: \<open>except FileNotFoundError\<close>, then \<open>except Exception\<close>; both return
  \<open>None\<close>. An exception that is no \<open>Exception\<close> reaches the caller.
\<close>

definition load_intrinsics_from_pickle :: "world \<Rightarrow> path \<Rightarrow> (exn + pyval) \<times> world" where
  "load_intrinsics_from_pickle w filepath =
     (case load_body w filepath of
        (Inr intrinsics, w1) \<Rightarrow> (Inr intrinsics, w1)
      | (Inl e, w1) \<Rightarrow>
          if e = FileNotFoundError then (Inr PyNone, print (File_not_found filepath) w1)
          else if is_Exception e then (Inr PyNone, print (Load_failed e) w1)
          else (Inl e, w1))"

text \<open>
  The values the loader hands back: a dictionary all of whose values are arrays (the
  loop over the items prints every value with \<open>np.array2string\<close>).
\<close>

fun is_array :: "pyval \<Rightarrow> bool" where
  "is_array (PyArray a) = True"
| "is_array _ = False"

fun dict_of_arrays :: "pyval \<Rightarrow> bool" where
  "dict_of_arrays (PyDict kvs) = list_all (\<lambda>kv. is_array (snd kv)) kvs"
| "dict_of_arrays _ = False"

subsection \<open>\<open>visualize_camera_intrinsics\<close>\<close>

text \<open>\<open>not intrinsics\<close>: Python's truth value; an array of several elements has none.\<close>

fun truth :: "pyval \<Rightarrow> exn + bool" where
  "truth PyNone = Inr False"
| "truth (PyInt n) = Inr (n \<noteq> 0)"
| "truth (PyFloat x) = Inr (x \<noteq> 0)"
| "truth (PyStr s) = Inr (s \<noteq> [])"
| "truth (PyList xs) = Inr (xs \<noteq> [])"
| "truth (PyTuple xs) = Inr (xs \<noteq> [])"
| "truth (PyDict kvs) = Inr (kvs \<noteq> [])"
| "truth (PyArray a) =
     (case concat a of [] \<Rightarrow> Inr False | [x] \<Rightarrow> Inr (x \<noteq> 0) | _ \<Rightarrow> Inl ValueError)"

text \<open>
  \<open>d[key]\<close> with a string key: a dictionary raises \<open>KeyError\<close> on a missing key, an
  array refuses a string index, the other values are not subscriptable by a string.
\<close>

fun getitem :: "pyval \<Rightarrow> string \<Rightarrow> exn + pyval" where
  "getitem (PyDict kvs) key =
     (case map_of kvs key of None \<Rightarrow> Inl (KeyError (PyStr key)) | Some v \<Rightarrow> Inr v)"
| "getitem (PyArray a) key = Inl IndexError"
| "getitem _ key = Inl TypeError"

text \<open>
  \<open>a[i, j]\<close>: an element of a two-dimensional array, \<open>IndexError\<close> out of range; on a
  dictionary the pair is a key that is missing (the keys are strings).
\<close>

fun getitem2 :: "pyval \<Rightarrow> nat \<Rightarrow> nat \<Rightarrow> exn + real" where
  "getitem2 (PyArray a) i j =
     (if i < length a \<and> j < length (a ! i) then Inr (a ! i ! j) else Inl IndexError)"
| "getitem2 (PyDict kvs) i j = Inl (KeyError (PyTuple [PyInt (int i), PyInt (int j)]))"
| "getitem2 _ i j = Inl TypeError"

text \<open>\<open>int(x)\<close> on a number truncates towards zero.\<close>

definition py_int :: "real \<Rightarrow> int" where
  "py_int x = (if 0 \<le> x then \<lfloor>x\<rfloor> else \<lceil>x\<rceil>)"

text \<open>
  What the function has extracted when it starts to plot: the focal lengths and the
  principal point, the width \<open>W\<close> and the height \<open>H\<close>, and the corners of the image plane
  \<open>[[0, 0], [W, 0], [W, H], [0, H]]\<close> (x first). The plot itself is not modelled.
\<close>

record view =
  fx :: real
  fy :: real
  cx :: real
  cy :: real
  W :: int
  H :: int
  image_corners_2d :: "(int \<times> int) list"

text \<open>The body of the \<open>try\<close> statement: it reads the matrix, then the image size.\<close>

definition extract_parameters :: "pyval \<Rightarrow> world \<Rightarrow> (exn + (real \<times> real \<times> real \<times> real \<times> int \<times> int)) \<times> world" where
  "extract_parameters intrinsics w =
     (case getitem intrinsics ''intrinsicMat'' of
        Inl e \<Rightarrow> (Inl e, w)
      | Inr K \<Rightarrow>
     (case getitem2 K 0 0 of Inl e \<Rightarrow> (Inl e, w) | Inr fx' \<Rightarrow>
     (case getitem2 K 1 1 of Inl e \<Rightarrow> (Inl e, w) | Inr fy' \<Rightarrow>
     (case getitem2 K 0 2 of Inl e \<Rightarrow> (Inl e, w) | Inr cx' \<Rightarrow>
     (case getitem2 K 1 2 of Inl e \<Rightarrow> (Inl e, w) | Inr cy' \<Rightarrow>
       (let w1 = print (Found_intrinsics fx' fy' cx' cy') w in
        case getitem intrinsics ''imageSize'' of
          Inl e \<Rightarrow> (Inl e, w1)
        | Inr size0 \<Rightarrow>
       (case getitem2 size0 0 0 of Inl e \<Rightarrow> (Inl e, w1) | Inr h \<Rightarrow>
       (case getitem intrinsics ''imageSize'' of
          Inl e \<Rightarrow> (Inl e, w1)
        | Inr size1 \<Rightarrow>
       (case getitem2 size1 1 0 of Inl e \<Rightarrow> (Inl e, w1) | Inr wd \<Rightarrow>
          (Inr (fx', fy', cx', cy', py_int wd, py_int h),
           print (Found_size (py_int wd) (py_int h)) w1))))))))))"

text \<open>
  \<open>Found_size\<close> stands for \<open>print(f"Found width={W}, height={H}")\<close>: width first.
  Only a \<open>KeyError\<close> is handled; the function then prints three lines and returns.
\<close>

definition visualize_camera_intrinsics :: "pyval \<Rightarrow> world \<Rightarrow> (exn + view option) \<times> world" where
  "visualize_camera_intrinsics intrinsics w =
     (case truth intrinsics of
        Inl e \<Rightarrow> (Inl e, w)
      | Inr False \<Rightarrow> (Inr None, print (Text ''Intrinsics data is not valid. Cannot visualize.'') w)
      | Inr True \<Rightarrow>
          (let w1 = print (Text ''--- Extracting parameters for visualization ---'') w in
           case extract_parameters intrinsics w1 of
             (Inl e, w2) \<Rightarrow>
               if is_KeyError e then
                 (Inr None,
                  print (Text ''The structure might be different. Please check the printout above.'')
                    (print (Missing_key e) (print (Text ''--- ERROR ---'') w2)))
               else (Inl e, w2)
           | (Inr (fx', fy', cx', cy', W', H'), w2) \<Rightarrow>
               (Inr (Some \<lparr>fx = fx', fy = fy', cx = cx', cy = cy', W = W', H = H',
                            image_corners_2d = [(0, 0), (W', 0), (W', H'), (0, H')]\<rparr>), w2)))"

section \<open>main_calcIntrinsicsSony.py\<close>

text \<open>
  The script's user inputs and the directories it works in. \<open>CheckerBoardParams\<close> is the
  dictionary \<open>{'dimensions': (width, height), 'squareSize': size}\<close>; the script never
  computes with its entries, so they stay Python values.
\<close>

record checker =
  dimensions :: "pyval \<times> pyval"
  squareSize :: pyval

record inputs =
  sessionName :: string
  CheckerBoardParams :: checker
  trials :: "string list"
  loadTrialInfo :: bool
  saveIntrinsicsForDeployment :: bool
  deployedFolderNames :: "string list"
  cameraModel :: string
  videoType :: string
  dataDir :: path
  cwd :: path

text \<open>
  The helpers the script imports from \<open>utils\<close> and \<open>utilsCheckerSony\<close> are not among the
  sources: they are parameters. \<open>computeAverageIntrinsics\<close> returns the averaged
  intrinsics, the list of the trials' intrinsics, the comparison record and the camera
  model; it and \<open>saveCameraParameters\<close> may raise and may change the world.
\<close>

record externals =
  importMetadata :: "world \<Rightarrow> path \<Rightarrow> exn + pyval"
  computeAverageIntrinsics ::
    "world \<Rightarrow> path \<Rightarrow> pyval \<Rightarrow> checker \<Rightarrow> nat \<Rightarrow> string \<Rightarrow> string
      \<Rightarrow> (exn + (pyval \<times> pyval \<times> pyval \<times> string)) \<times> world"
  saveCameraParameters :: "world \<Rightarrow> path \<Rightarrow> pyval \<Rightarrow> exn option \<times> world"

definition sessionDir :: "inputs \<Rightarrow> path" where
  "sessionDir inp = os_path_join (dataDir inp) []"

text \<open>\<open>trials[0]\<close> raises on an empty list.\<close>

definition trialFile :: "inputs \<Rightarrow> exn + path" where
  "trialFile inp =
     (case trials inp of
        [] \<Rightarrow> Inl IndexError
      | t # _ \<Rightarrow> Inr (os_path_join (sessionDir inp) [t, ''trialInfo.yaml'']))"

definition intrinsicComparisonFile :: "inputs \<Rightarrow> path" where
  "intrinsicComparisonFile inp = os_path_join (sessionDir inp) [''intrinsicComparison.pkl'']"

definition metadataPath :: "inputs \<Rightarrow> path" where
  "metadataPath inp = os_path_join (sessionDir inp) [''sessionMetadata.yaml'']"

text \<open>\<open>d[k1][k2]\<close>.\<close>

definition getitem_in :: "pyval \<Rightarrow> string \<Rightarrow> string \<Rightarrow> exn + pyval" where
  "getitem_in d k1 k2 = (case getitem d k1 of Inl e \<Rightarrow> Inl e | Inr v \<Rightarrow> getitem v k2)"

text \<open>
  Lines 44 to 50: when the session metadata exists, the checkerboard parameters are
  replaced from it; otherwise they are left as the caller gave them.
\<close>

definition metadata_stage :: "externals \<Rightarrow> inputs \<Rightarrow> world \<Rightarrow> (exn + checker) \<times> world" where
  "metadata_stage ext inp w =
     (if metadataPath inp \<in> dom (files w) then
        (case importMetadata ext w (metadataPath inp) of
           Inl e \<Rightarrow> (Inl e, w)
         | Inr sessionMetadata \<Rightarrow>
        (case getitem_in sessionMetadata ''checkerBoard'' ''black2BlackCornersWidth_n'' of
           Inl e \<Rightarrow> (Inl e, w)
         | Inr wd \<Rightarrow>
        (case getitem_in sessionMetadata ''checkerBoard'' ''black2BlackCornersHeight_n'' of
           Inl e \<Rightarrow> (Inl e, w)
         | Inr ht \<Rightarrow>
        (case getitem_in sessionMetadata ''checkerBoard'' ''squareSideLength_mm'' of
           Inl e \<Rightarrow> (Inl e, w)
         | Inr sq \<Rightarrow>
             (Inr \<lparr>dimensions = (wd, ht), squareSize = sq\<rparr>,
              print (Text ''CheckerBoardParams replaced from metadata file.'') w)))))
      else (Inr (CheckerBoardParams inp), w))"

text \<open>
  \<open>yaml.safe_load\<close> on an open file: an empty file is the empty document, which loads
  as \<open>None\<close>; a pickle is no YAML text.
\<close>

fun yaml_safe_load :: "content \<Rightarrow> exn + pyval" where
  "yaml_safe_load Blank = Inr PyNone"
| "yaml_safe_load (YamlText v) = Inr v"
| "yaml_safe_load (PickleBytes _) = Inl YAMLError"
| "yaml_safe_load (PickleRaising _) = Inl YAMLError"

text \<open>
  Lines 52 to 62. The message is the concatenation of the two adjacent string literals
  of the source, \<open>'trialFile doesn'\<close> and \<open>'t exist. Enter ...'\<close>.
\<close>

definition trial_info_stage :: "inputs \<Rightarrow> path \<Rightarrow> pyval \<times> checker \<Rightarrow> world \<Rightarrow> exn + pyval \<times> checker" where
  "trial_info_stage inp tf cur w =
     (if loadTrialInfo inp then
        (case files w tf of
           Some c \<Rightarrow>
             (case yaml_safe_load c of Inl e \<Rightarrow> Inl e | Inr trialInfo \<Rightarrow>
             (case getitem trialInfo ''trials'' of Inl e \<Rightarrow> Inl e | Inr tr \<Rightarrow>
             (case getitem trialInfo ''nSquaresWidth'' of Inl e \<Rightarrow> Inl e | Inr wd \<Rightarrow>
             (case getitem trialInfo ''nSquaresHeight'' of Inl e \<Rightarrow> Inl e | Inr ht \<Rightarrow>
             (case getitem trialInfo ''squareSize'' of Inl e \<Rightarrow> Inl e | Inr sq \<Rightarrow>
                Inr (tr, \<lparr>dimensions = (wd, ht), squareSize = sq\<rparr>))))))
         | None \<Rightarrow>
             Inl (Exception ''trialFile doesnt exist. Enter trials and CheckerBoardParams manually.''))
      else Inr cur)"

text \<open>
  Writing a file, as \<open>with open(p, 'w') as f: dump(record, f)\<close> does it: opening the
  file for writing creates it or empties it, then the dump fills it. Each step changes
  the store that every reader sees.
\<close>

datatype fs_op = Open_w path | Dump path content

fun target :: "fs_op \<Rightarrow> path" where
  "target (Open_w p) = p"
| "target (Dump p c) = p"

fun apply_op :: "(path \<rightharpoonup> content) \<Rightarrow> fs_op \<Rightarrow> (path \<rightharpoonup> content)" where
  "apply_op fs (Open_w p) = fs(p \<mapsto> Blank)"
| "apply_op fs (Dump p c) = fs(p \<mapsto> c)"

definition run_ops :: "(path \<rightharpoonup> content) \<Rightarrow> fs_op list \<Rightarrow> (path \<rightharpoonup> content)" where
  "run_ops fs ops = foldl apply_op fs ops"

definition write_file :: "path \<Rightarrow> content \<Rightarrow> fs_op list" where
  "write_file p c = [Open_w p, Dump p c]"

text \<open>Lines 78 to 82: the trial manifest.\<close>

definition trialInfo_dict :: "pyval \<Rightarrow> checker \<Rightarrow> string \<Rightarrow> pyval" where
  "trialInfo_dict tr cb cm =
     PyDict [(''trials'', tr),
             (''nSquaresWidth'', fst (dimensions cb)),
             (''nSquaresHeight'', snd (dimensions cb)),
             (''squareSize'', squareSize cb),
             (''cameraModel'', PyStr cm)]"

text \<open>Lines 83 to 87: the manifest, then the comparison record.\<close>

definition store_ops :: "inputs \<Rightarrow> path \<Rightarrow> pyval \<Rightarrow> checker \<Rightarrow> string \<Rightarrow> pyval \<Rightarrow> fs_op list" where
  "store_ops inp tf tr cb cm intrinsicComparisons =
     write_file tf (YamlText (trialInfo_dict tr cb cm))
     @ write_file (intrinsicComparisonFile inp) (PickleBytes intrinsicComparisons)"

text \<open>Lines 70 to 75: one record for each deployed folder name.\<close>

definition permIntrinsicDir :: "inputs \<Rightarrow> string \<Rightarrow> string \<Rightarrow> path" where
  "permIntrinsicDir inp cm deployedFolderName =
     os_path_join (cwd inp) [''CameraIntrinsics'', cm, deployedFolderName]"

definition deployed_file :: "inputs \<Rightarrow> string \<Rightarrow> string \<Rightarrow> path" where
  "deployed_file inp cm deployedFolderName =
     os_path_join (permIntrinsicDir inp cm deployedFolderName) [''cameraIntrinsics.pickle'']"

fun save_deployed :: "externals \<Rightarrow> inputs \<Rightarrow> string \<Rightarrow> pyval \<Rightarrow> string list \<Rightarrow> world \<Rightarrow> exn option \<times> world" where
  "save_deployed ext inp cm CamParamsAverage [] w = (None, w)"
| "save_deployed ext inp cm CamParamsAverage (d # ds) w =
     (case saveCameraParameters ext w (deployed_file inp cm d) CamParamsAverage of
        (Some e, w1) \<Rightarrow> (Some e, w1)
      | (None, w1) \<Rightarrow> save_deployed ext inp cm CamParamsAverage ds w1)"



text \<open>Lines 66 to 87: the aggregation, the deployment, the manifest and the comparison.\<close>

definition aggregate_and_save :: "externals \<Rightarrow> inputs \<Rightarrow> path \<Rightarrow> pyval \<Rightarrow> checker \<Rightarrow> world \<Rightarrow> exn option \<times> world" where
  "aggregate_and_save ext inp tf tr cb w =
     (case computeAverageIntrinsics ext w (sessionDir inp) tr cb 50 (cameraModel inp) (videoType inp) of
        (Inl e, w1) \<Rightarrow> (Some e, w1)
      | (Inr (CamParamsAverage, CamParamList, intrinsicComparisons, cm), w1) \<Rightarrow>
          (case (if saveIntrinsicsForDeployment inp
                 then save_deployed ext inp cm CamParamsAverage (deployedFolderNames inp) w1
                 else (None, w1)) of
             (Some e, w2) \<Rightarrow> (Some e, w2)
           | (None, w2) \<Rightarrow>
               (None, w2\<lparr>files := run_ops (files w2) (store_ops inp tf tr cb cm intrinsicComparisons)\<rparr>)))"

text \<open>The script: the exception that ends it, if any, and the world it leaves.\<close>

definition main_calcIntrinsicsSony :: "externals \<Rightarrow> inputs \<Rightarrow> world \<Rightarrow> exn option \<times> world" where
  "main_calcIntrinsicsSony ext inp w =
     (case trialFile inp of
        Inl e \<Rightarrow> (Some e, w)
      | Inr tf \<Rightarrow>
          (case metadata_stage ext inp w of
             (Inl e, w1) \<Rightarrow> (Some e, w1)
           | (Inr cb, w1) \<Rightarrow>
               (case trial_info_stage inp tf (PyList (map PyStr (trials inp)), cb) w1 of
                  Inl e \<Rightarrow> (Some e, w1)
                | Inr (tr, cb1) \<Rightarrow> aggregate_and_save ext inp tf tr cb1 w1)))"

subsection \<open>The inputs of the script, and helpers to run it on\<close>

text \<open>
  The user inputs as lines 19 to 34 of the script set them, with the data directory
  and the working directory shortened to their last folder.
\<close>

definition script_inputs :: inputs where
  "script_inputs =
     \<lparr>sessionName = ''SonyIntrinsics'',
      CheckerBoardParams = \<lparr>dimensions = (PyInt 8, PyInt 11), squareSize = PyInt 60\<rparr>,
      trials = [''Cam4b''],
      loadTrialInfo = False,
      saveIntrinsicsForDeployment = True,
      deployedFolderNames = [''Deployed_720_60fps'', ''Deployed''],
      cameraModel = ''SONYRX0-II-Cam4b'',
      videoType = ''.MP4'',
      dataDir = ''IntrinsicCaptures'',
      cwd = ''opencap-core''\<rparr>"

text \<open>
  One choice of the three helpers, to run the script on concrete inputs: the metadata
  is the YAML document at the path, the aggregation returns a fixed record for a camera
  of 1280 x 720 pixels, and a record is saved by storing its pickle at the path.
\<close>

definition read_yaml :: "world \<Rightarrow> path \<Rightarrow> exn + pyval" where
  "read_yaml w p =
     (case files w p of None \<Rightarrow> Inl FileNotFoundError | Some c \<Rightarrow> yaml_safe_load c)"

definition fixed_average ::
  "world \<Rightarrow> path \<Rightarrow> pyval \<Rightarrow> checker \<Rightarrow> nat \<Rightarrow> string \<Rightarrow> string
    \<Rightarrow> (exn + (pyval \<times> pyval \<times> pyval \<times> string)) \<times> world" where
  "fixed_average w dir tr cb nImages cm vt =
     (Inr (PyDict [(''intrinsicMat'', PyArray [[1000, 0, 640], [0, 1000, 360], [0, 0, 1]]),
                   (''imageSize'', PyArray [[720], [1280]])],
           PyList [], PyDict [], cm), w)"

definition store_at :: "world \<Rightarrow> path \<Rightarrow> pyval \<Rightarrow> exn option \<times> world" where
  "store_at w p v = (None, w\<lparr>files := (files w)(p \<mapsto> PickleBytes v)\<rparr>)"

definition sample_externals :: externals where
  "sample_externals =
     \<lparr>importMetadata = read_yaml, computeAverageIntrinsics = fixed_average,
      saveCameraParameters = store_at\<rparr>"

definition empty_world :: world where
  "empty_world = \<lparr>files = Map.empty, stdout = []\<rparr>"

text \<open>A session metadata document, and a world that holds it at the script's path.\<close>

definition sample_metadata :: pyval where
  "sample_metadata =
     PyDict [(''checkerBoard'',
       PyDict [(''black2BlackCornersWidth_n'', PyInt 4),
               (''black2BlackCornersHeight_n'', PyInt 5),
               (''squareSideLength_mm'', PyInt 35)])]"

definition metadata_world :: world where
  "metadata_world =
     \<lparr>files = [''IntrinsicCaptures/sessionMetadata.yaml'' \<mapsto> YamlText sample_metadata],
      stdout = []\<rparr>"

text \<open>
  The world the script leaves when it is run on its inputs in the empty world with
  these helpers: the two deployed records, the manifest and the comparison record.
\<close>

definition final_world :: world where
  "final_world =
     \<lparr>files =
        [''opencap-core/CameraIntrinsics/SONYRX0-II-Cam4b/Deployed_720_60fps/cameraIntrinsics.pickle'' \<mapsto>
           PickleBytes (PyDict [(''intrinsicMat'', PyArray [[1000, 0, 640], [0, 1000, 360], [0, 0, 1]]),
                                (''imageSize'', PyArray [[720], [1280]])]),
         ''opencap-core/CameraIntrinsics/SONYRX0-II-Cam4b/Deployed/cameraIntrinsics.pickle'' \<mapsto>
           PickleBytes (PyDict [(''intrinsicMat'', PyArray [[1000, 0, 640], [0, 1000, 360], [0, 0, 1]]),
                                (''imageSize'', PyArray [[720], [1280]])]),
         ''IntrinsicCaptures/Cam4b/trialInfo.yaml'' \<mapsto>
           YamlText (PyDict [(''trials'', PyList [PyStr ''Cam4b'']),
                             (''nSquaresWidth'', PyInt 8),
                             (''nSquaresHeight'', PyInt 11),
                             (''squareSize'', PyInt 60),
                             (''cameraModel'', PyStr ''SONYRX0-II-Cam4b'')]),
         ''IntrinsicCaptures/intrinsicComparison.pkl'' \<mapsto> PickleBytes (PyDict [])],
      stdout = []\<rparr>"

section \<open>ReproducePaperResults: the two-camera and the three-camera pipeline\<close>

subsection \<open>Where the restructuring puts a camera's record of a session\<close>




subsection \<open>Strings\<close>

text \<open>\<open>s.lower()\<close>, on the ASCII letters.\<close>

definition lower_char :: "char \<Rightarrow> char" where
  "lower_char c =
     (if (65::nat) \<le> of_char c \<and> of_char c \<le> (90::nat) then char_of (of_char c + (32::nat)) else c)"

definition lower :: "string \<Rightarrow> string" where
  "lower s = map lower_char s"

text \<open>\<open>s.startswith(sub)\<close> and \<open>sub in s\<close>.\<close>

fun startswith :: "string \<Rightarrow> string \<Rightarrow> bool" where
  "startswith s [] = True"
| "startswith [] (c # cs) = False"
| "startswith (x # xs) (c # cs) = (x = c \<and> startswith xs cs)"

fun py_in :: "string \<Rightarrow> string \<Rightarrow> bool" where
  "py_in sub [] = (sub = [])"
| "py_in sub (x # xs) = (startswith (x # xs) sub \<or> py_in sub xs)"

definition is_extrinsics :: "string \<Rightarrow> bool" where
  "is_extrinsics trial = py_in ''extrinsics'' (lower trial)"

definition is_static :: "string \<Rightarrow> bool" where
  "is_static trial = py_in ''static'' (lower trial)"

text \<open>\<open>xs.index(x)\<close>: the first position of \<open>x\<close>; \<open>None\<close> stands for the \<open>ValueError\<close>.\<close>

fun list_index :: "string list \<Rightarrow> string \<Rightarrow> nat option" where
  "list_index [] x = None"
| "list_index (y # ys) x = (if y = x then Some 0 else map_option Suc (list_index ys x))"

subsection \<open>The order of the trials\<close>

text \<open>
  The scripts run at module level inside the loop over the sessions, so
  \<open>extrinsics_idx\<close> and \<open>static_idx\<close> keep their values from one session to the next:
  the model takes the value each has when the session starts (\<open>None\<close>: not yet bound) and
  returns the one it has afterwards.

  Two cameras, lines 144 to 146: the loop that looks for the extrinsics trial.
\<close>

fun scan_two :: "string list \<Rightarrow> string list \<Rightarrow> nat option \<Rightarrow> exn + nat option" where
  "scan_two trials_tmp [] extrinsics_idx = Inr extrinsics_idx"
| "scan_two trials_tmp (trial # rest) extrinsics_idx =
     (if is_extrinsics trial then
        (case list_index trials_tmp trial of
           None \<Rightarrow> Inl ValueError
         | Some i \<Rightarrow> scan_two trials_tmp rest (Some i))
      else scan_two trials_tmp rest extrinsics_idx)"

text \<open>Reading a variable that is not bound raises \<open>NameError\<close>; \<open>xs[i]\<close> out of range raises.\<close>

definition read_index :: "string \<Rightarrow> nat option \<Rightarrow> string list \<Rightarrow> exn + string" where
  "read_index name idx xs =
     (case idx of
        None \<Rightarrow> Inl (NameError name)
      | Some i \<Rightarrow> if i < length xs then Inr (xs ! i) else Inl IndexError)"

text \<open>Two cameras, lines 141 to 150: \<open>listing\<close> is \<open>os.listdir(pathCam0)\<close>.\<close>

definition reorder_two :: "nat option \<Rightarrow> string list \<Rightarrow> (string \<Rightarrow> bool) \<Rightarrow> exn + (string list \<times> nat option)" where
  "reorder_two extrinsics_idx0 listing isdir =
     (let trials_tmp = filter isdir listing in
      case scan_two trials_tmp trials_tmp extrinsics_idx0 of
        Inl e \<Rightarrow> Inl e
      | Inr extrinsics_idx \<Rightarrow>
          (case read_index ''extrinsics_idx'' extrinsics_idx trials_tmp of
             Inl e \<Rightarrow> Inl e
           | Inr first \<Rightarrow>
               Inr ([first] @ filter (\<lambda>trial. \<not> is_extrinsics trial) trials_tmp, extrinsics_idx)))"

text \<open>
  Three cameras, lines 256 to 262: \<open>session_with_static\<close> starts as \<open>True\<close> and the loop
  sets it to \<open>True\<close> again at a static trial.
\<close>

fun scan_three :: "string list \<Rightarrow> string list \<Rightarrow> nat option \<times> nat option \<times> bool
    \<Rightarrow> exn + (nat option \<times> nat option \<times> bool)" where
  "scan_three trials_tmp [] vars = Inr vars"
| "scan_three trials_tmp (trial # rest) (extrinsics_idx, static_idx, session_with_static) =
     (case (if is_extrinsics trial
            then (case list_index trials_tmp trial of
                    None \<Rightarrow> Inl ValueError | Some i \<Rightarrow> Inr (Some i))
            else Inr extrinsics_idx) of
        Inl e \<Rightarrow> Inl e
      | Inr extrinsics_idx1 \<Rightarrow>
          (if is_static trial then
             (case list_index trials_tmp trial of
                None \<Rightarrow> Inl ValueError
              | Some i \<Rightarrow> scan_three trials_tmp rest (extrinsics_idx1, Some i, True))
           else scan_three trials_tmp rest (extrinsics_idx1, static_idx, session_with_static)))"

text \<open>Three cameras, lines 253 to 273.\<close>

definition reorder_three :: "nat option \<Rightarrow> nat option \<Rightarrow> string list \<Rightarrow> (string \<Rightarrow> bool)
    \<Rightarrow> exn + (string list \<times> nat option \<times> nat option)" where
  "reorder_three extrinsics_idx0 static_idx0 listing isdir =
     (let trials_tmp = filter isdir listing in
      case scan_three trials_tmp trials_tmp (extrinsics_idx0, static_idx0, True) of
        Inl e \<Rightarrow> Inl e
      | Inr (extrinsics_idx, static_idx, session_with_static) \<Rightarrow>
          (case read_index ''extrinsics_idx'' extrinsics_idx trials_tmp of
             Inl e \<Rightarrow> Inl e
           | Inr first \<Rightarrow>
               if session_with_static then
                 (case read_index ''static_idx'' static_idx trials_tmp of
                    Inl e \<Rightarrow> Inl e
                  | Inr second \<Rightarrow>
                      Inr ([first] @ [second]
                           @ filter (\<lambda>trial. \<not> is_static trial \<and> \<not> is_extrinsics trial) trials_tmp,
                           extrinsics_idx, static_idx))
               else
                 Inr ([first] @ filter (\<lambda>trial. \<not> is_extrinsics trial) trials_tmp,
                      extrinsics_idx, static_idx)))"

subsection \<open>The role of a trial\<close>

text \<open>
  What the loop over the trials hands to \<open>process_trial\<close> for each trial, in order: the
  arguments that depend on the trial or on the session.
\<close>

record process_call =
  trial_name :: string
  session_name :: string
  intrinsicsFinalFolder :: string
  extrinsicsTrial :: bool
  scaleModel :: bool

text \<open>Two cameras, lines 174 to 199: \<open>scaleModel\<close> is always \<open>False\<close>.\<close>

definition process_trials_two :: "string \<Rightarrow> string list \<Rightarrow> process_call list" where
  "process_trials_two sessionName' trials' =
     map (\<lambda>trial.
            \<lparr>trial_name = trial, session_name = sessionName',
             intrinsicsFinalFolder = ''Deployed_720_60fps'',
             extrinsicsTrial = (if is_extrinsics trial then True else False),
             scaleModel = False\<rparr>) trials'"

text \<open>Three cameras, lines 301 to 332.\<close>

definition process_trials_three :: "string \<Rightarrow> string list \<Rightarrow> process_call list" where
  "process_trials_three sessionName' trials' =
     map (\<lambda>trial.
            \<lparr>trial_name = trial, session_name = sessionName',
             intrinsicsFinalFolder =
               (if py_in ''subject222'' sessionName' \<or> py_in ''subject333'' sessionName'
                then ''Deployed_720_240fps'' else ''Deployed_720_60fps''),
             extrinsicsTrial = (if is_extrinsics trial then True else False),
             scaleModel = (if is_static trial then True else False)\<rparr>) trials'"

section \<open>Properties of the loader\<close>

lemma print_items_files: "print_items kvs w = (r, w') \<Longrightarrow> files w' = files w"
proof (induction kvs arbitrary: w)
  case Nil
  then show ?case by simp
next
  case (Cons kv kvs)
  obtain k v where kv: "kv = (k, v)" by (cases kv)
  show ?case
  proof (cases "array2string v")
    case (Inl e')
    with Cons.prems kv show ?thesis by (auto simp: Let_def print_def)
  next
    case (Inr a)
    with Cons.prems kv have "print_items kvs (print (Array_line a) (print (Key_line k) w)) = (r, w')"
      by (simp add: Let_def)
    from Cons.IH [OF this] show ?thesis by (simp add: print_def)
  qed
qed

text \<open>The loop over the items ends without a raise exactly when every value is an array.\<close>

lemma print_items_result:
  "fst (print_items kvs w) =
     (if list_all (\<lambda>kv. is_array (snd kv)) kvs then None else Some AttributeError)"
proof (induction kvs arbitrary: w)
  case Nil
  show ?case by simp
next
  case (Cons kv kvs)
  obtain k v where kv: "kv = (k, v)" by (cases kv)
  show ?case
    by (cases v) (simp_all add: kv Let_def Cons.IH)
qed

lemma load_body_files: "load_body w p = (r, w') \<Longrightarrow> files w' = files w"
  unfolding load_body_def
  by (auto simp: Let_def print_def split: option.splits sum.splits prod.splits
      dest: print_items_files)

text \<open>What the body of the \<open>try\<close> statement returns or raises.\<close>

lemma load_body_result:
  "fst (load_body w p) =
     (case files w p of
        None \<Rightarrow> Inl FileNotFoundError
      | Some Blank \<Rightarrow> Inl EOFError
      | Some (YamlText y) \<Rightarrow> Inl UnpicklingError
      | Some (PickleBytes v) \<Rightarrow> if dict_of_arrays v then Inr v else Inl AttributeError
      | Some (PickleRaising e) \<Rightarrow> Inl e)"
proof (cases "files w p")
  case None
  then show ?thesis by (simp add: load_body_def)
next
  case (Some c)
  show ?thesis
  proof (cases c)
    case (PickleBytes v)
    show ?thesis
    proof (cases v)
      case (PyDict kvs)
      obtain r w2
        where pi: "print_items kvs (print (Text ''Successfully loaded intrinsics:'') w) = (r, w2)"
        by (cases "print_items kvs (print (Text ''Successfully loaded intrinsics:'') w)")
      with print_items_result [of kvs "print (Text ''Successfully loaded intrinsics:'') w"]
      have r: "r = (if list_all (\<lambda>kv. is_array (snd kv)) kvs then None else Some AttributeError)"
        by simp
      show ?thesis
        using Some PickleBytes PyDict pi r by (simp add: load_body_def Let_def)
    qed (simp_all add: Some PickleBytes load_body_def Let_def)
  qed (simp_all add: Some load_body_def)
qed

text \<open>
  C1. A path that was never written holds no file: the loader prints the missing-file
  message and returns \<open>None\<close>, not a record.
\<close>

theorem load_unwritten_key_returns_None:
  "files w filepath = None \<Longrightarrow>
   load_intrinsics_from_pickle w filepath = (Inr PyNone, print (File_not_found filepath) w)"
  by (simp add: load_intrinsics_from_pickle_def load_body_def)

theorem load_unwritten_key_returns_None_witness:
  "files \<lparr>files = Map.empty, stdout = []\<rparr> ''CameraIntrinsics/cam/Deployed/cameraIntrinsics.pickle'' = None
   \<and> load_intrinsics_from_pickle \<lparr>files = Map.empty, stdout = []\<rparr>
        ''CameraIntrinsics/cam/Deployed/cameraIntrinsics.pickle''
     = (Inr PyNone, \<lparr>files = Map.empty,
          stdout = [File_not_found ''CameraIntrinsics/cam/Deployed/cameraIntrinsics.pickle'']\<rparr>)"
  using load_unwritten_key_returns_None
    [of "\<lparr>files = Map.empty, stdout = []\<rparr>"
        "''CameraIntrinsics/cam/Deployed/cameraIntrinsics.pickle''"]
  by (simp add: print_def)

text \<open>
  C10, as the code has it. What the loader gives its caller, for every store and path:
  the loaded dictionary when the file is the pickle of a dictionary of arrays; \<open>None\<close>
  when there is no file, when the file is empty or no pickle, when the pickled value is
  no dictionary of arrays, and when the pickle's callable raises an \<open>Exception\<close>. When the
  callable raises an exception that is no \<open>Exception\<close>, neither handler catches it and it
  reaches the caller. The loader leaves the files as they were.
\<close>

theorem load_outcome:
  "fst (load_intrinsics_from_pickle w filepath) =
     (case files w filepath of
        None \<Rightarrow> Inr PyNone
      | Some Blank \<Rightarrow> Inr PyNone
      | Some (YamlText y) \<Rightarrow> Inr PyNone
      | Some (PickleBytes v) \<Rightarrow> if dict_of_arrays v then Inr v else Inr PyNone
      | Some (PickleRaising e) \<Rightarrow> if is_Exception e then Inr PyNone else Inl e)
   \<and> files (snd (load_intrinsics_from_pickle w filepath)) = files w"
proof -
  obtain r w1 where b: "load_body w filepath = (r, w1)"
    by (cases "load_body w filepath")
  then have fs: "files w1 = files w" by (rule load_body_files)
  from b have r: "r = fst (load_body w filepath)" by simp
  have val: "fst (load_intrinsics_from_pickle w filepath) =
      (case r of Inr v \<Rightarrow> Inr v
       | Inl e \<Rightarrow> if e = FileNotFoundError \<or> is_Exception e then Inr PyNone else Inl e)"
    by (simp add: load_intrinsics_from_pickle_def b split: sum.splits)
  have "files (snd (load_intrinsics_from_pickle w filepath)) = files w"
    using fs by (simp add: load_intrinsics_from_pickle_def b print_def split: sum.splits)
  moreover have "fst (load_intrinsics_from_pickle w filepath) =
     (case files w filepath of
        None \<Rightarrow> Inr PyNone
      | Some Blank \<Rightarrow> Inr PyNone
      | Some (YamlText y) \<Rightarrow> Inr PyNone
      | Some (PickleBytes v) \<Rightarrow> if dict_of_arrays v then Inr v else Inr PyNone
      | Some (PickleRaising e) \<Rightarrow> if is_Exception e then Inr PyNone else Inl e)"
    unfolding val r load_body_result
    by (simp split: option.splits content.splits)
  ultimately show ?thesis by simp
qed

theorem load_outcome_witness:
  "fst (load_intrinsics_from_pickle
         \<lparr>files = [''cameraIntrinsics.pickle'' \<mapsto>
                     PickleBytes (PyDict [(''intrinsicMat'', PyArray [[1000, 0, 640], [0, 1000, 360], [0, 0, 1]]),
                                          (''imageSize'', PyArray [[720], [1280]])]),
                   ''trialInfo.yaml'' \<mapsto> YamlText (PyStr ''x'')],
          stdout = []\<rparr>
         ''cameraIntrinsics.pickle'')
     = Inr (PyDict [(''intrinsicMat'', PyArray [[1000, 0, 640], [0, 1000, 360], [0, 0, 1]]),
                    (''imageSize'', PyArray [[720], [1280]])])
   \<and> fst (load_intrinsics_from_pickle
         \<lparr>files = [''cameraIntrinsics.pickle'' \<mapsto>
                     PickleBytes (PyDict [(''intrinsicMat'', PyArray [[1000, 0, 640], [0, 1000, 360], [0, 0, 1]]),
                                          (''imageSize'', PyArray [[720], [1280]])]),
                   ''trialInfo.yaml'' \<mapsto> YamlText (PyStr ''x'')],
          stdout = []\<rparr>
         ''trialInfo.yaml'')
     = Inr PyNone"
  using
    load_outcome
      [of "\<lparr>files = [''cameraIntrinsics.pickle'' \<mapsto>
                     PickleBytes (PyDict [(''intrinsicMat'', PyArray [[1000, 0, 640], [0, 1000, 360], [0, 0, 1]]),
                                          (''imageSize'', PyArray [[720], [1280]])]),
                   ''trialInfo.yaml'' \<mapsto> YamlText (PyStr ''x'')],
          stdout = []\<rparr>" "''cameraIntrinsics.pickle''"]
    load_outcome
      [of "\<lparr>files = [''cameraIntrinsics.pickle'' \<mapsto>
                     PickleBytes (PyDict [(''intrinsicMat'', PyArray [[1000, 0, 640], [0, 1000, 360], [0, 0, 1]]),
                                          (''imageSize'', PyArray [[720], [1280]])]),
                   ''trialInfo.yaml'' \<mapsto> YamlText (PyStr ''x'')],
          stdout = []\<rparr>" "''trialInfo.yaml''"]
  by simp

text \<open>
  C10, as the claim words it, fails: a pickle whose callable raises \<open>SystemExit\<close> (a
  pickle that names \<open>sys.exit\<close>) makes \<open>pickle.load\<close> raise it, \<open>except Exception\<close> does
  not catch it, and the loader raises it to its caller.
\<close>

theorem load_propagates_SystemExit_counterexample:
  "fst (load_intrinsics_from_pickle
         \<lparr>files = [''cameraIntrinsics.pickle'' \<mapsto> PickleRaising SystemExit], stdout = []\<rparr>
         ''cameraIntrinsics.pickle'')
   = Inl SystemExit"
  by (simp add: load_intrinsics_from_pickle_def load_body_def)

section \<open>Properties of the visualizer\<close>

lemma getitem_Inr_truth: "getitem intrinsics key = Inr v \<Longrightarrow> truth intrinsics = Inr True"
  by (cases intrinsics) (auto split: option.splits)

text \<open>
  C8, as the code has it. The reader takes entry \<open>[0, 0]\<close> of the image-size field as the
  height and entry \<open>[1, 0]\<close> as the width: the stored field is (height, width). The width
  is the extent of the image plane along x, the height along y.
\<close>

theorem image_size_is_height_then_width:
  assumes "getitem intrinsics ''intrinsicMat'' = Inr K"
    and "getitem2 K 0 0 = Inr f1" and "getitem2 K 1 1 = Inr f2"
    and "getitem2 K 0 2 = Inr c1" and "getitem2 K 1 2 = Inr c2"
    and "getitem intrinsics ''imageSize'' = Inr (PyArray ((a # ra) # (b # rb) # rows))"
  shows "visualize_camera_intrinsics intrinsics w =
           (Inr (Some \<lparr>fx = f1, fy = f2, cx = c1, cy = c2, W = py_int b, H = py_int a,
                   image_corners_2d =
                     [(0, 0), (py_int b, 0), (py_int b, py_int a), (0, py_int a)]\<rparr>),
            print (Found_size (py_int b) (py_int a))
              (print (Found_intrinsics f1 f2 c1 c2)
                (print (Text ''--- Extracting parameters for visualization ---'') w)))"
proof -
  have t: "truth intrinsics = Inr True"
    using assms(1) by (rule getitem_Inr_truth)
  have e: "extract_parameters intrinsics w0 =
             (Inr (f1, f2, c1, c2, py_int b, py_int a),
              print (Found_size (py_int b) (py_int a)) (print (Found_intrinsics f1 f2 c1 c2) w0))"
    for w0
    using assms by (simp add: extract_parameters_def Let_def)
  show ?thesis
    by (simp add: visualize_camera_intrinsics_def t e Let_def)
qed

theorem image_size_is_height_then_width_witness:
  "visualize_camera_intrinsics
     (PyDict [(''intrinsicMat'', PyArray [[1000, 0, 640], [0, 1000, 360], [0, 0, 1]]),
              (''imageSize'', PyArray [[720], [1280]])])
     \<lparr>files = Map.empty, stdout = []\<rparr>
   = (Inr (Some \<lparr>fx = 1000, fy = 1000, cx = 640, cy = 360, W = 1280, H = 720,
             image_corners_2d = [(0, 0), (1280, 0), (1280, 720), (0, 720)]\<rparr>),
      \<lparr>files = Map.empty,
         stdout = [Text ''--- Extracting parameters for visualization ---'',
                   Found_intrinsics 1000 1000 640 360, Found_size 1280 720]\<rparr>)"
  using image_size_is_height_then_width
    [of "PyDict [(''intrinsicMat'', PyArray [[1000, 0, 640], [0, 1000, 360], [0, 0, 1]]),
                 (''imageSize'', PyArray [[720], [1280]])]"
        "PyArray [[1000, 0, 640], [0, 1000, 360], [0, 0, 1]]" 1000 1000 640 360
        720 "[]" 1280 "[]" "[]" "\<lparr>files = Map.empty, stdout = []\<rparr>"]
  by (simp add: py_int_def print_def)

text \<open>
  C8, as the spec words it, fails: on a record of a 1280 x 720 image, whose image-size
  field is \<open>[[720], [1280]]\<close>, the width the reader finds is not the first component.
\<close>

theorem image_size_width_first_counterexample:
  "(case fst (visualize_camera_intrinsics
        (PyDict [(''intrinsicMat'', PyArray [[1000, 0, 640], [0, 1000, 360], [0, 0, 1]]),
                 (''imageSize'', PyArray [[720], [1280]])])
        \<lparr>files = Map.empty, stdout = []\<rparr>) of
      Inr (Some v) \<Rightarrow> W v \<noteq> 720 \<and> W v = 1280 \<and> H v = 720
    | _ \<Rightarrow> False)"
  by (simp add: visualize_camera_intrinsics_def extract_parameters_def py_int_def print_def Let_def)

section \<open>Properties of the calibration script\<close>

lemmas script_defs =
  main_calcIntrinsicsSony_def trialFile_def sessionDir_def os_path_join_def join_step_def
  metadata_stage_def metadataPath_def trial_info_stage_def aggregate_and_save_def
  deployed_file_def permIntrinsicDir_def store_ops_def run_ops_def write_file_def
  intrinsicComparisonFile_def trialInfo_dict_def getitem_in_def print_def

lemmas sample_defs =
  script_inputs_def sample_externals_def fixed_average_def store_at_def read_yaml_def
  empty_world_def

text \<open>The paths and the inputs of the script, and its run, evaluated.\<close>

lemma script_paths:
  "trialFile script_inputs = Inr ''IntrinsicCaptures/Cam4b/trialInfo.yaml''"
  "intrinsicComparisonFile script_inputs = ''IntrinsicCaptures/intrinsicComparison.pkl''"
  "metadataPath script_inputs = ''IntrinsicCaptures/sessionMetadata.yaml''"
  "deployed_file script_inputs ''SONYRX0-II-Cam4b'' ''Deployed_720_60fps''
     = ''opencap-core/CameraIntrinsics/SONYRX0-II-Cam4b/Deployed_720_60fps/cameraIntrinsics.pickle''"
  "deployed_file script_inputs ''SONYRX0-II-Cam4b'' ''Deployed''
     = ''opencap-core/CameraIntrinsics/SONYRX0-II-Cam4b/Deployed/cameraIntrinsics.pickle''"
  by (simp_all add: trialFile_def intrinsicComparisonFile_def metadataPath_def deployed_file_def
      permIntrinsicDir_def sessionDir_def os_path_join_def join_step_def script_inputs_def)

lemma script_fields:
  "trials script_inputs = [''Cam4b'']"
  "CheckerBoardParams script_inputs = \<lparr>dimensions = (PyInt 8, PyInt 11), squareSize = PyInt 60\<rparr>"
  "loadTrialInfo script_inputs = False"
  "saveIntrinsicsForDeployment script_inputs = True"
  "deployedFolderNames script_inputs = [''Deployed_720_60fps'', ''Deployed'']"
  "cameraModel script_inputs = ''SONYRX0-II-Cam4b''"
  "videoType script_inputs = ''.MP4''"
  "sessionDir script_inputs = ''IntrinsicCaptures''"
  by (simp_all add: script_inputs_def sessionDir_def os_path_join_def)

lemma script_run:
  "main_calcIntrinsicsSony sample_externals script_inputs empty_world = (None, final_world)"
  by (simp add: main_calcIntrinsicsSony_def script_paths script_fields metadata_stage_def
      trial_info_stage_def aggregate_and_save_def store_ops_def run_ops_def write_file_def
      trialInfo_dict_def sample_externals_def fixed_average_def store_at_def empty_world_def
      final_world_def)

lemma metadata_stage_files: "metadata_stage ext inp w = (r, w1) \<Longrightarrow> files w1 = files w"
  unfolding metadata_stage_def
  by (auto simp: print_def split: if_splits sum.splits)

lemma metadata_stage_externals:
  "metadata_stage (ext\<lparr>computeAverageIntrinsics := c, saveCameraParameters := s\<rparr>) inp w
   = metadata_stage ext inp w"
  by (simp add: metadata_stage_def)

text \<open>
  C4. With \<open>loadTrialInfo\<close> set and no manifest at \<open>trialFile\<close>, the run ends in an
  exception and leaves the files as they were; when the metadata stage has passed, the
  exception is the one that asks for the trials and the checkerboard parameters. The
  run is the same whatever the aggregation and the saving helper are: neither is called.
\<close>

theorem missing_manifest_is_fatal:
  assumes "loadTrialInfo inp" and "trialFile inp = Inr tf" and "files w tf = None"
  shows "(\<exists>e w'. main_calcIntrinsicsSony ext inp w = (Some e, w') \<and> files w' = files w)
       \<and> (metadata_stage ext inp w = (Inr cb, w1) \<longrightarrow>
            main_calcIntrinsicsSony ext inp w =
              (Some (Exception ''trialFile doesnt exist. Enter trials and CheckerBoardParams manually.''), w1))
       \<and> main_calcIntrinsicsSony (ext\<lparr>computeAverageIntrinsics := c, saveCameraParameters := s\<rparr>) inp w
            = main_calcIntrinsicsSony ext inp w"
proof -
  obtain r w2 where m: "metadata_stage ext inp w = (r, w2)"
    by (cases "metadata_stage ext inp w")
  then have fs: "files w2 = files w" by (rule metadata_stage_files)
  have t: "trial_info_stage inp tf cur w2 =
             Inl (Exception ''trialFile doesnt exist. Enter trials and CheckerBoardParams manually.'')" for cur
    using assms fs by (simp add: trial_info_stage_def)
  have run: "main_calcIntrinsicsSony ext inp w =
          (case r of Inl e \<Rightarrow> (Some e, w2)
           | Inr cb \<Rightarrow> (Some (Exception ''trialFile doesnt exist. Enter trials and CheckerBoardParams manually.''), w2))"
    using assms(2) m t by (simp add: main_calcIntrinsicsSony_def split: sum.splits)
  have run': "main_calcIntrinsicsSony (ext\<lparr>computeAverageIntrinsics := c, saveCameraParameters := s\<rparr>) inp w =
          (case r of Inl e \<Rightarrow> (Some e, w2)
           | Inr cb \<Rightarrow> (Some (Exception ''trialFile doesnt exist. Enter trials and CheckerBoardParams manually.''), w2))"
    using assms(2) m t
    by (simp add: main_calcIntrinsicsSony_def metadata_stage_externals split: sum.splits)
  show ?thesis
    using run run' fs m by (auto split: sum.splits)
qed

theorem missing_manifest_is_fatal_witness:
  "loadTrialInfo (script_inputs\<lparr>loadTrialInfo := True\<rparr>)
   \<and> trialFile (script_inputs\<lparr>loadTrialInfo := True\<rparr>)
       = Inr ''IntrinsicCaptures/Cam4b/trialInfo.yaml''
   \<and> files empty_world ''IntrinsicCaptures/Cam4b/trialInfo.yaml'' = None
   \<and> main_calcIntrinsicsSony sample_externals (script_inputs\<lparr>loadTrialInfo := True\<rparr>) empty_world
       = (Some (Exception ''trialFile doesnt exist. Enter trials and CheckerBoardParams manually.''),
          empty_world)"
proof -
  have a: "loadTrialInfo (script_inputs\<lparr>loadTrialInfo := True\<rparr>)" by simp
  have b: "trialFile (script_inputs\<lparr>loadTrialInfo := True\<rparr>)
             = Inr ''IntrinsicCaptures/Cam4b/trialInfo.yaml''"
    by (simp add: script_defs sample_defs)
  have c: "files empty_world ''IntrinsicCaptures/Cam4b/trialInfo.yaml'' = None"
    by (simp add: empty_world_def)
  have d: "metadata_stage sample_externals (script_inputs\<lparr>loadTrialInfo := True\<rparr>) empty_world
             = (Inr (CheckerBoardParams script_inputs), empty_world)"
    by (simp add: script_defs sample_defs)
  from missing_manifest_is_fatal [OF a b c, where ext = sample_externals
      and cb = "CheckerBoardParams script_inputs" and ?w1.0 = empty_world] d
  show ?thesis using a b c by simp
qed

text \<open>
  C5. Without a session metadata file the metadata stage does not raise and returns the
  caller's \<open>CheckerBoardParams\<close> unchanged, and the run goes on to the aggregation with
  them; with the file, the parameters are the metadata's checkerboard values
  (\<open>loadTrialInfo\<close> being off, as in the script).
\<close>

theorem metadata_fallback:
  "(files w (metadataPath inp) = None \<longrightarrow>
      metadata_stage ext inp w = (Inr (CheckerBoardParams inp), w)
      \<and> (trialFile inp = Inr tf \<and> \<not> loadTrialInfo inp \<longrightarrow>
           main_calcIntrinsicsSony ext inp w =
             aggregate_and_save ext inp tf (PyList (map PyStr (trials inp))) (CheckerBoardParams inp) w))
   \<and> (files w (metadataPath inp) = Some c
        \<and> importMetadata ext w (metadataPath inp) = Inr md
        \<and> getitem_in md ''checkerBoard'' ''black2BlackCornersWidth_n'' = Inr wd
        \<and> getitem_in md ''checkerBoard'' ''black2BlackCornersHeight_n'' = Inr ht
        \<and> getitem_in md ''checkerBoard'' ''squareSideLength_mm'' = Inr sq \<longrightarrow>
      metadata_stage ext inp w =
        (Inr \<lparr>dimensions = (wd, ht), squareSize = sq\<rparr>,
         print (Text ''CheckerBoardParams replaced from metadata file.'') w)
      \<and> (trialFile inp = Inr tf \<and> \<not> loadTrialInfo inp \<longrightarrow>
           main_calcIntrinsicsSony ext inp w =
             aggregate_and_save ext inp tf (PyList (map PyStr (trials inp)))
               \<lparr>dimensions = (wd, ht), squareSize = sq\<rparr>
               (print (Text ''CheckerBoardParams replaced from metadata file.'') w)))"
proof -
  have absent: "metadata_stage ext inp w = (Inr (CheckerBoardParams inp), w)"
    if "files w (metadataPath inp) = None"
    using that by (simp add: metadata_stage_def domIff)
  have present: "metadata_stage ext inp w =
        (Inr \<lparr>dimensions = (wd, ht), squareSize = sq\<rparr>,
         print (Text ''CheckerBoardParams replaced from metadata file.'') w)"
    if "files w (metadataPath inp) = Some c" "importMetadata ext w (metadataPath inp) = Inr md"
       "getitem_in md ''checkerBoard'' ''black2BlackCornersWidth_n'' = Inr wd"
       "getitem_in md ''checkerBoard'' ''black2BlackCornersHeight_n'' = Inr ht"
       "getitem_in md ''checkerBoard'' ''squareSideLength_mm'' = Inr sq"
    using that by (simp add: metadata_stage_def domIff)
  have go: "main_calcIntrinsicsSony ext inp w =
              aggregate_and_save ext inp tf (PyList (map PyStr (trials inp))) cb w1"
    if "metadata_stage ext inp w = (Inr cb, w1)" "trialFile inp = Inr tf" "\<not> loadTrialInfo inp"
    for cb w1
    using that by (simp add: main_calcIntrinsicsSony_def trial_info_stage_def)
  show ?thesis
    using absent present go by blast
qed

theorem metadata_fallback_witness:
  "files empty_world (metadataPath script_inputs) = None
   \<and> metadata_stage sample_externals script_inputs empty_world
       = (Inr \<lparr>dimensions = (PyInt 8, PyInt 11), squareSize = PyInt 60\<rparr>, empty_world)
   \<and> main_calcIntrinsicsSony sample_externals script_inputs empty_world
       = aggregate_and_save sample_externals script_inputs
           ''IntrinsicCaptures/Cam4b/trialInfo.yaml'' (PyList [PyStr ''Cam4b''])
           \<lparr>dimensions = (PyInt 8, PyInt 11), squareSize = PyInt 60\<rparr> empty_world
   \<and> files metadata_world (metadataPath script_inputs) = Some (YamlText sample_metadata)
   \<and> metadata_stage sample_externals script_inputs metadata_world
       = (Inr \<lparr>dimensions = (PyInt 4, PyInt 5), squareSize = PyInt 35\<rparr>,
          print (Text ''CheckerBoardParams replaced from metadata file.'') metadata_world)"
proof -
  have a: "files empty_world (metadataPath script_inputs) = None"
    by (simp add: script_defs sample_defs)
  have b: "trialFile script_inputs = Inr ''IntrinsicCaptures/Cam4b/trialInfo.yaml''"
    by (simp add: script_defs sample_defs)
  have c: "\<not> loadTrialInfo script_inputs" by (simp add: sample_defs)
  have d: "files metadata_world (metadataPath script_inputs) = Some (YamlText sample_metadata)"
    by (simp add: script_defs sample_defs metadata_world_def)
  have e: "importMetadata sample_externals metadata_world (metadataPath script_inputs)
             = Inr sample_metadata"
    by (simp add: script_defs sample_defs metadata_world_def)
  have f: "getitem_in sample_metadata ''checkerBoard'' ''black2BlackCornersWidth_n'' = Inr (PyInt 4)"
    "getitem_in sample_metadata ''checkerBoard'' ''black2BlackCornersHeight_n'' = Inr (PyInt 5)"
    "getitem_in sample_metadata ''checkerBoard'' ''squareSideLength_mm'' = Inr (PyInt 35)"
    by (simp_all add: getitem_in_def sample_metadata_def)
  have g: "CheckerBoardParams script_inputs = \<lparr>dimensions = (PyInt 8, PyInt 11), squareSize = PyInt 60\<rparr>"
    "trials script_inputs = [''Cam4b'']"
    by (simp_all add: sample_defs)
  from metadata_fallback [where w = empty_world and inp = script_inputs and ext = sample_externals
      and tf = "''IntrinsicCaptures/Cam4b/trialInfo.yaml''"]
    metadata_fallback [where w = metadata_world and inp = script_inputs and ext = sample_externals
      and c = "YamlText sample_metadata" and md = sample_metadata
      and wd = "PyInt 4" and ht = "PyInt 5" and sq = "PyInt 35"]
    a b c d e f g
  show ?thesis by simp
qed

text \<open>A joined path ends with its last component.\<close>

lemma join_step_suffix: "suffix b (join_step path b)"
  by (simp add: join_step_def suffix_def split: list.splits)

lemma os_path_join_suffix: "suffix b (os_path_join a (ps @ [b]))"
  by (simp add: os_path_join_def join_step_suffix)

lemma trialFile_suffix: "trialFile inp = Inr tf \<Longrightarrow> suffix ''trialInfo.yaml'' tf"
  using os_path_join_suffix [of "''trialInfo.yaml''" "sessionDir inp" "[t]" for t]
  by (auto simp: trialFile_def split: list.splits)

lemma intrinsicComparisonFile_suffix:
  "suffix ''intrinsicComparison.pkl'' (intrinsicComparisonFile inp)"
  using os_path_join_suffix [of "''intrinsicComparison.pkl''" "sessionDir inp" "[]"]
  by (simp add: intrinsicComparisonFile_def)

lemma trialFile_not_comparison:
  assumes "trialFile inp = Inr tf"
  shows "tf \<noteq> intrinsicComparisonFile inp"
proof
  assume eq: "tf = intrinsicComparisonFile inp"
  from trialFile_suffix [OF assms] obtain xs where xs: "tf = xs @ ''trialInfo.yaml''"
    by (auto simp: suffix_def)
  from intrinsicComparisonFile_suffix [of inp] obtain ys
    where ys: "intrinsicComparisonFile inp = ys @ ''intrinsicComparison.pkl''"
    by (auto simp: suffix_def)
  from eq xs ys have "take 2 (rev (xs @ ''trialInfo.yaml'')) = take 2 (rev (ys @ ''intrinsicComparison.pkl''))"
    by simp
  then show False by simp
qed

lemma run_store_ops:
  "tf \<noteq> intrinsicComparisonFile inp \<Longrightarrow>
   run_ops fs (store_ops inp tf tr cb cm cmp) =
     fs(tf \<mapsto> YamlText (trialInfo_dict tr cb cm),
        intrinsicComparisonFile inp \<mapsto> PickleBytes cmp)"
  by (simp add: run_ops_def store_ops_def write_file_def)

lemma reload_manifest:
  assumes "loadTrialInfo inp2"
    and "files w2 tf = Some (YamlText (trialInfo_dict tr cb cm))"
  shows "trial_info_stage inp2 tf cur w2 = Inr (tr, cb)"
  using assms by (simp add: trial_info_stage_def trialInfo_dict_def)

text \<open>
  C2. When the script completes, the aggregation has returned, and the file at
  \<open>trialFile\<close> holds the manifest: the trials and the checkerboard width, height and
  square size the aggregation was called with, and the camera model it returned, and
  nothing else. Any run with \<open>loadTrialInfo\<close> set that reads this file gets back these
  trials and these \<open>CheckerBoardParams\<close>.
\<close>

theorem manifest_round_trip:
  assumes "main_calcIntrinsicsSony ext inp w = (None, w')"
  shows "\<exists>tf tr cb w0 avg lst cmp cm w1.
     trialFile inp = Inr tf
     \<and> computeAverageIntrinsics ext w0 (sessionDir inp) tr cb 50 (cameraModel inp) (videoType inp)
         = (Inr (avg, lst, cmp, cm), w1)
     \<and> files w' tf =
         Some (YamlText (PyDict [(''trials'', tr),
                                 (''nSquaresWidth'', fst (dimensions cb)),
                                 (''nSquaresHeight'', snd (dimensions cb)),
                                 (''squareSize'', squareSize cb),
                                 (''cameraModel'', PyStr cm)]))
     \<and> (\<forall>inp2 cur w2. loadTrialInfo inp2 \<and> files w2 tf = files w' tf \<longrightarrow>
           trial_info_stage inp2 tf cur w2 = Inr (tr, cb))"
proof -
  from assms obtain tf where tf: "trialFile inp = Inr tf"
    by (cases "trialFile inp") (auto simp: main_calcIntrinsicsSony_def)
  from assms tf obtain cb0 w0 where m: "metadata_stage ext inp w = (Inr cb0, w0)"
    by (cases "metadata_stage ext inp w")
       (auto simp: main_calcIntrinsicsSony_def split: sum.splits)
  from assms tf m obtain tr cb
    where t: "trial_info_stage inp tf (PyList (map PyStr (trials inp)), cb0) w0 = Inr (tr, cb)"
    by (auto simp: main_calcIntrinsicsSony_def split: sum.splits)
  from assms tf m t have a: "aggregate_and_save ext inp tf tr cb w0 = (None, w')"
    by (simp add: main_calcIntrinsicsSony_def)
  then obtain avg lst cmp cm w1
    where c: "computeAverageIntrinsics ext w0 (sessionDir inp) tr cb 50 (cameraModel inp) (videoType inp)
               = (Inr (avg, lst, cmp, cm), w1)"
    by (auto simp: aggregate_and_save_def split: prod.splits sum.splits)
  from a c obtain w2
    where w': "w' = w2\<lparr>files := run_ops (files w2) (store_ops inp tf tr cb cm cmp)\<rparr>"
    by (auto simp: aggregate_and_save_def split: prod.splits option.splits)
  have ne: "tf \<noteq> intrinsicComparisonFile inp"
    using tf by (rule trialFile_not_comparison)
  have f: "files w' tf = Some (YamlText (trialInfo_dict tr cb cm))"
    using ne by (simp add: w' run_store_ops)
  have r: "trial_info_stage inp2 tf cur w3 = Inr (tr, cb)"
    if "loadTrialInfo inp2" "files w3 tf = files w' tf" for inp2 cur w3
    using that f by (simp add: reload_manifest)
  show ?thesis
    using tf c f r unfolding trialInfo_dict_def by blast
qed

theorem manifest_round_trip_witness:
  "\<exists>w'. main_calcIntrinsicsSony sample_externals script_inputs empty_world = (None, w')
     \<and> files w' ''IntrinsicCaptures/Cam4b/trialInfo.yaml''
         = Some (YamlText (PyDict [(''trials'', PyList [PyStr ''Cam4b'']),
                                   (''nSquaresWidth'', PyInt 8),
                                   (''nSquaresHeight'', PyInt 11),
                                   (''squareSize'', PyInt 60),
                                   (''cameraModel'', PyStr ''SONYRX0-II-Cam4b'')]))
     \<and> trial_info_stage (script_inputs\<lparr>loadTrialInfo := True\<rparr>)
          ''IntrinsicCaptures/Cam4b/trialInfo.yaml'' (PyNone, CheckerBoardParams script_inputs) w'
         = Inr (PyList [PyStr ''Cam4b''], \<lparr>dimensions = (PyInt 8, PyInt 11), squareSize = PyInt 60\<rparr>)"
proof -
  have run: "main_calcIntrinsicsSony sample_externals script_inputs empty_world = (None, final_world)"
    by (rule script_run)
  have fw: "files final_world ''IntrinsicCaptures/Cam4b/trialInfo.yaml''
         = Some (YamlText (PyDict [(''trials'', PyList [PyStr ''Cam4b'']),
                                   (''nSquaresWidth'', PyInt 8),
                                   (''nSquaresHeight'', PyInt 11),
                                   (''squareSize'', PyInt 60),
                                   (''cameraModel'', PyStr ''SONYRX0-II-Cam4b'')]))"
    by (simp add: final_world_def)
  from manifest_round_trip [OF run] obtain tr cb cm where
    m: "files final_world ''IntrinsicCaptures/Cam4b/trialInfo.yaml'' =
         Some (YamlText (PyDict [(''trials'', tr),
                                 (''nSquaresWidth'', fst (dimensions cb)),
                                 (''nSquaresHeight'', snd (dimensions cb)),
                                 (''squareSize'', squareSize cb),
                                 (''cameraModel'', PyStr cm)]))"
    and r: "\<And>inp2 cur w2. loadTrialInfo inp2 \<Longrightarrow>
              files w2 ''IntrinsicCaptures/Cam4b/trialInfo.yaml''
                = files final_world ''IntrinsicCaptures/Cam4b/trialInfo.yaml'' \<Longrightarrow>
              trial_info_stage inp2 ''IntrinsicCaptures/Cam4b/trialInfo.yaml'' cur w2 = Inr (tr, cb)"
    using script_paths(1) by auto
  from m fw have "tr = PyList [PyStr ''Cam4b'']"
    and "cb = \<lparr>dimensions = (PyInt 8, PyInt 11), squareSize = PyInt 60\<rparr>"
    by (auto intro: checker.equality)
  with r [of "script_inputs\<lparr>loadTrialInfo := True\<rparr>" final_world
      "(PyNone, CheckerBoardParams script_inputs)"]
  have "trial_info_stage (script_inputs\<lparr>loadTrialInfo := True\<rparr>)
          ''IntrinsicCaptures/Cam4b/trialInfo.yaml'' (PyNone, CheckerBoardParams script_inputs) final_world
         = Inr (PyList [PyStr ''Cam4b''], \<lparr>dimensions = (PyInt 8, PyInt 11), squareSize = PyInt 60\<rparr>)"
    by simp
  with run fw show ?thesis by blast
qed

text \<open>
  C3, as the code has it. The manifest and the comparison record are written in place:
  every step of the two writes acts on the final slot itself (there is no temporary
  location and no move); opening a slot empties it, the dump then fills it, and the
  other files stay as they were. So after the first step the manifest slot is empty, and
  once all steps are done both slots hold their whole records.
\<close>

theorem store_writes_in_place:
  assumes "trialFile inp = Inr tf"
  shows "set (map target (store_ops inp tf tr cb cm cmp)) = {tf, intrinsicComparisonFile inp}
       \<and> run_ops fs (take 1 (store_ops inp tf tr cb cm cmp)) = fs(tf \<mapsto> Blank)
       \<and> run_ops fs (take 2 (store_ops inp tf tr cb cm cmp))
           = fs(tf \<mapsto> YamlText (trialInfo_dict tr cb cm))
       \<and> run_ops fs (take 3 (store_ops inp tf tr cb cm cmp))
           = fs(tf \<mapsto> YamlText (trialInfo_dict tr cb cm), intrinsicComparisonFile inp \<mapsto> Blank)
       \<and> run_ops fs (store_ops inp tf tr cb cm cmp)
           = fs(tf \<mapsto> YamlText (trialInfo_dict tr cb cm),
                intrinsicComparisonFile inp \<mapsto> PickleBytes cmp)"
proof -
  have ne: "tf \<noteq> intrinsicComparisonFile inp"
    using assms by (rule trialFile_not_comparison)
  have ops: "store_ops inp tf tr cb cm cmp =
      [Open_w tf, Dump tf (YamlText (trialInfo_dict tr cb cm)),
       Open_w (intrinsicComparisonFile inp), Dump (intrinsicComparisonFile inp) (PickleBytes cmp)]"
    by (simp add: store_ops_def write_file_def)
  show ?thesis
    using ne by (auto simp: ops run_ops_def)
qed

theorem store_writes_in_place_witness:
  "trialFile script_inputs = Inr ''IntrinsicCaptures/Cam4b/trialInfo.yaml''
   \<and> run_ops Map.empty
        (store_ops script_inputs ''IntrinsicCaptures/Cam4b/trialInfo.yaml''
           (PyList [PyStr ''Cam4b'']) (CheckerBoardParams script_inputs) ''SONYRX0-II-Cam4b'' (PyDict []))
       = [''IntrinsicCaptures/Cam4b/trialInfo.yaml'' \<mapsto>
            YamlText (trialInfo_dict (PyList [PyStr ''Cam4b'']) (CheckerBoardParams script_inputs)
                        ''SONYRX0-II-Cam4b''),
          ''IntrinsicCaptures/intrinsicComparison.pkl'' \<mapsto> PickleBytes (PyDict [])]"
proof -
  have a: "trialFile script_inputs = Inr ''IntrinsicCaptures/Cam4b/trialInfo.yaml''"
    by (simp add: script_defs sample_defs)
  have b: "intrinsicComparisonFile script_inputs = ''IntrinsicCaptures/intrinsicComparison.pkl''"
    by (simp add: script_defs sample_defs)
  from store_writes_in_place [OF a, of "PyList [PyStr ''Cam4b'']" "CheckerBoardParams script_inputs"
      "''SONYRX0-II-Cam4b''" "PyDict []" Map.empty] a b
  show ?thesis by simp
qed

text \<open>
  C3, as the spec words it, fails: with an old manifest in the slot, after the first step
  of the write a reader finds an empty file, which is neither the old record nor the new
  one; a write that stops there has changed the final slot.
\<close>

theorem manifest_write_not_atomic_counterexample:
  "run_ops [''IntrinsicCaptures/Cam4b/trialInfo.yaml'' \<mapsto> YamlText (PyStr ''old manifest'')]
     (take 1 (store_ops script_inputs ''IntrinsicCaptures/Cam4b/trialInfo.yaml''
        (PyList [PyStr ''Cam4b'']) (CheckerBoardParams script_inputs) ''SONYRX0-II-Cam4b'' (PyDict [])))
     ''IntrinsicCaptures/Cam4b/trialInfo.yaml''
   = Some Blank
   \<and> Some Blank \<noteq> Some (YamlText (PyStr ''old manifest''))
   \<and> Some Blank \<noteq>
       run_ops [''IntrinsicCaptures/Cam4b/trialInfo.yaml'' \<mapsto> YamlText (PyStr ''old manifest'')]
         (store_ops script_inputs ''IntrinsicCaptures/Cam4b/trialInfo.yaml''
            (PyList [PyStr ''Cam4b'']) (CheckerBoardParams script_inputs) ''SONYRX0-II-Cam4b'' (PyDict []))
         ''IntrinsicCaptures/Cam4b/trialInfo.yaml''"
  by (simp add: script_defs sample_defs)

subsection \<open>Where the averaged intrinsics are deployed\<close>



















section \<open>Properties of the pipelines\<close>

text \<open>Python's \<open>in\<close> on strings is the sublist relation.\<close>

lemma startswith_prefix: "startswith s sub = prefix sub s"
  by (induction s sub rule: startswith.induct) auto

lemma py_in_sublist: "py_in sub s = sublist sub s"
  by (induction s) (simp_all add: sublist_Cons_right startswith_prefix)

text \<open>
  C7, as the code has it. The trials are folder names and carry no tag: the flags handed
  to \<open>process_trial\<close> are computed from the name alone. \<open>extrinsicsTrial\<close> holds exactly
  when the lower-cased name contains \<open>extrinsics\<close>; in the three-camera pipeline
  \<open>scaleModel\<close> holds exactly when it contains \<open>static\<close>, and in the two-camera pipeline
  \<open>scaleModel\<close> is always off.
\<close>

theorem role_follows_folder_name:
  "map trial_name (process_trials_three s ts) = ts
   \<and> map extrinsicsTrial (process_trials_three s ts) = map (\<lambda>t. sublist ''extrinsics'' (lower t)) ts
   \<and> map scaleModel (process_trials_three s ts) = map (\<lambda>t. sublist ''static'' (lower t)) ts
   \<and> map trial_name (process_trials_two s ts) = ts
   \<and> map extrinsicsTrial (process_trials_two s ts) = map (\<lambda>t. sublist ''extrinsics'' (lower t)) ts
   \<and> map scaleModel (process_trials_two s ts) = map (\<lambda>t. False) ts"
  by (simp add: process_trials_three_def process_trials_two_def is_extrinsics_def is_static_def
      py_in_sublist comp_def)

theorem role_follows_folder_name_witness:
  "map scaleModel (process_trials_three ''subject11'' [''Extrinsics'', ''neutral_STATIC'', ''walking1''])
     = [False, True, False]
   \<and> map extrinsicsTrial (process_trials_three ''subject11'' [''Extrinsics'', ''neutral_STATIC'', ''walking1''])
     = [True, False, False]"
proof -
  have "sublist ''extrinsics'' (lower ''Extrinsics'') = True"
    "sublist ''extrinsics'' (lower ''neutral_STATIC'') = False"
    "sublist ''extrinsics'' (lower ''walking1'') = False"
    "sublist ''static'' (lower ''Extrinsics'') = False"
    "sublist ''static'' (lower ''neutral_STATIC'') = True"
    "sublist ''static'' (lower ''walking1'') = False"
    by code_simp+
  with role_follows_folder_name [of "''subject11''" "[''Extrinsics'', ''neutral_STATIC'', ''walking1'']"]
  show ?thesis by simp
qed

text \<open>
  C7, as the spec words it, fails: a dynamic trial whose folder name happens to contain
  \<open>static\<close> is handed over as the scaling trial, and one whose name contains
  \<open>Extrinsics\<close> as the extrinsics trial.
\<close>

theorem role_by_typed_tag_counterexample:
  "process_trials_three ''subject11'' [''walking_after_static'', ''STS_noExtrinsics'']
   = [\<lparr>trial_name = ''walking_after_static'', session_name = ''subject11'',
       intrinsicsFinalFolder = ''Deployed_720_60fps'', extrinsicsTrial = False, scaleModel = True\<rparr>,
      \<lparr>trial_name = ''STS_noExtrinsics'', session_name = ''subject11'',
       intrinsicsFinalFolder = ''Deployed_720_60fps'', extrinsicsTrial = True, scaleModel = False\<rparr>]"
  by code_simp

subsection \<open>The order of the trials\<close>

lemma list_index_member:
  "x \<in> set xs \<Longrightarrow> \<exists>i. list_index xs x = Some i \<and> i < length xs \<and> xs ! i = x"
  by (induction xs) auto

lemma scan_two_no_extrinsics:
  "\<forall>t \<in> set rest. \<not> is_extrinsics t \<Longrightarrow> scan_two trials_tmp rest idx = Inr idx"
  by (induction rest arbitrary: idx) auto

lemma scan_two_finds:
  assumes "set rest \<subseteq> set trials_tmp" and "\<exists>t \<in> set rest. is_extrinsics t"
  shows "\<exists>i. scan_two trials_tmp rest idx = Inr (Some i) \<and> i < length trials_tmp
            \<and> is_extrinsics (trials_tmp ! i)"
  using assms
proof (induction rest arbitrary: idx)
  case Nil
  then show ?case by simp
next
  case (Cons trial rest)
  show ?case
  proof (cases "\<exists>t \<in> set rest. is_extrinsics t")
    case True
    with Cons.prems(1) have ih: "\<exists>i. scan_two trials_tmp rest idx' = Inr (Some i) \<and> i < length trials_tmp
            \<and> is_extrinsics (trials_tmp ! i)" for idx'
      by (intro Cons.IH) auto
    show ?thesis
    proof (cases "is_extrinsics trial")
      case True
      from Cons.prems(1) obtain j where "list_index trials_tmp trial = Some j"
        using list_index_member [of trial trials_tmp] by auto
      with True ih [of "Some j"] show ?thesis by simp
    next
      case False
      with ih [of idx] show ?thesis by simp
    qed
  next
    case False
    with Cons.prems(2) have e: "is_extrinsics trial" by auto
    from Cons.prems(1) obtain j where j: "list_index trials_tmp trial = Some j"
      "j < length trials_tmp" "trials_tmp ! j = trial"
      using list_index_member [of trial trials_tmp] by auto
    from False have "scan_two trials_tmp rest (Some j) = Inr (Some j)"
      by (intro scan_two_no_extrinsics) auto
    with e j show ?thesis by simp
  qed
qed

text \<open>
  Two cameras: in a session with an extrinsics trial the order starts with an extrinsics
  trial, and every trial after it is none.
\<close>

lemma two_camera_extrinsics_first:
  assumes "\<exists>t \<in> set listing. isdir t \<and> is_extrinsics t"
  shows "\<exists>first i. reorder_two idx0 listing isdir =
            Inr (first # filter (\<lambda>t. \<not> is_extrinsics t) (filter isdir listing), Some i)
          \<and> is_extrinsics first \<and> first \<in> set listing \<and> isdir first"
proof -
  let ?tmp = "filter isdir listing"
  from assms have "\<exists>t \<in> set ?tmp. is_extrinsics t" by auto
  from scan_two_finds [OF subset_refl this, of idx0]
  obtain i where i: "scan_two ?tmp ?tmp idx0 = Inr (Some i)" "i < length ?tmp"
    "is_extrinsics (?tmp ! i)" by blast
  from i(2) have "?tmp ! i \<in> set ?tmp" by (rule nth_mem)
  then have "?tmp ! i \<in> set listing" "isdir (?tmp ! i)" by auto
  with i show ?thesis
    by (simp add: reorder_two_def read_index_def Let_def)
qed

lemma scan_three_split:
  assumes "set rest \<subseteq> set trials_tmp"
  shows "\<exists>e' s'. scan_three trials_tmp rest (e, s, b) = Inr (e', s', b \<or> (\<exists>t \<in> set rest. is_static t))
           \<and> scan_two trials_tmp rest e = Inr e'
           \<and> (if \<exists>t \<in> set rest. is_static t
               then \<exists>j. s' = Some j \<and> j < length trials_tmp \<and> is_static (trials_tmp ! j)
               else s' = s)"
  using assms
proof (induction rest arbitrary: e s b)
  case Nil
  then show ?case by simp
next
  case (Cons trial rest)
  from Cons.prems obtain j where j: "list_index trials_tmp trial = Some j"
    "j < length trials_tmp" "trials_tmp ! j = trial"
    using list_index_member [of trial trials_tmp] by auto
  from Cons.prems have sub: "set rest \<subseteq> set trials_tmp" by simp
  define e1 where "e1 = (if is_extrinsics trial then Some j else e)"
  show ?case
  proof (cases "is_static trial")
    case True
    from Cons.IH [OF sub, of e1 "Some j" True] obtain e' s' where
      ih: "scan_three trials_tmp rest (e1, Some j, True) = Inr (e', s', True)"
          "scan_two trials_tmp rest e1 = Inr e'"
          "if \<exists>t \<in> set rest. is_static t
           then \<exists>k. s' = Some k \<and> k < length trials_tmp \<and> is_static (trials_tmp ! k)
           else s' = Some j"
      by auto
    have "\<exists>k. s' = Some k \<and> k < length trials_tmp \<and> is_static (trials_tmp ! k)"
      using ih(3) j True by (auto split: if_splits)
    with ih(1,2) True j show ?thesis
      by (intro exI [of _ e'] exI [of _ s']) (auto simp: e1_def)
  next
    case False
    from Cons.IH [OF sub, of e1 s b] obtain e' s' where
      ih: "scan_three trials_tmp rest (e1, s, b) = Inr (e', s', b \<or> (\<exists>t \<in> set rest. is_static t))"
          "scan_two trials_tmp rest e1 = Inr e'"
          "if \<exists>t \<in> set rest. is_static t
           then \<exists>k. s' = Some k \<and> k < length trials_tmp \<and> is_static (trials_tmp ! k)
           else s' = s"
      by auto
    with False j show ?thesis
      by (intro exI [of _ e'] exI [of _ s']) (auto simp: e1_def)
  qed
qed

text \<open>
  Three cameras: in a session with an extrinsics trial and a static trial the order
  starts with an extrinsics trial, then a static trial, then the trials that are neither.
\<close>

lemma three_camera_extrinsics_then_static:
  assumes "\<exists>t \<in> set listing. isdir t \<and> is_extrinsics t"
    and "\<exists>t \<in> set listing. isdir t \<and> is_static t"
  shows "\<exists>first second i j. reorder_three extrinsics_idx0 static_idx0 listing isdir =
            Inr (first # second
                   # filter (\<lambda>t. \<not> is_static t \<and> \<not> is_extrinsics t) (filter isdir listing),
                 Some i, Some j)
          \<and> is_extrinsics first \<and> is_static second"
proof -
  let ?tmp = "filter isdir listing"
  from assms(1) have ex: "\<exists>t \<in> set ?tmp. is_extrinsics t" by auto
  from assms(2) have st: "\<exists>t \<in> set ?tmp. is_static t" by auto
  from scan_three_split [OF subset_refl, of ?tmp extrinsics_idx0 static_idx0 True] st
  obtain e' j where s3: "scan_three ?tmp ?tmp (extrinsics_idx0, static_idx0, True) = Inr (e', Some j, True)"
    and s2: "scan_two ?tmp ?tmp extrinsics_idx0 = Inr e'"
    and j: "j < length ?tmp" "is_static (?tmp ! j)"
    by auto
  from scan_two_finds [OF subset_refl ex, of extrinsics_idx0] s2
  obtain i where i: "e' = Some i" "i < length ?tmp" "is_extrinsics (?tmp ! i)" by auto
  show ?thesis
    using s3 i j by (simp add: reorder_three_def read_index_def Let_def)
qed

text \<open>
  C9 fails in the three-camera pipeline. \<open>session_with_static\<close> starts as \<open>True\<close>, so in a
  session with an extrinsics trial and no static trial the script reads \<open>static_idx\<close>:
  in the first session the variable is not bound and the script stops with a
  \<open>NameError\<close> before any trial is processed.
\<close>

theorem three_camera_without_static_raises:
  assumes "\<exists>t \<in> set listing. isdir t \<and> is_extrinsics t"
    and "\<forall>t \<in> set listing. isdir t \<longrightarrow> \<not> is_static t"
  shows "reorder_three extrinsics_idx0 None listing isdir = Inl (NameError ''static_idx'')"
proof -
  let ?tmp = "filter isdir listing"
  from assms(1) have ex: "\<exists>t \<in> set ?tmp. is_extrinsics t" by auto
  from assms(2) have no: "\<not> (\<exists>t \<in> set ?tmp. is_static t)" by auto
  from scan_three_split [OF subset_refl, of ?tmp extrinsics_idx0 None True] no
  obtain e' where s3: "scan_three ?tmp ?tmp (extrinsics_idx0, None, True) = Inr (e', None, True)"
    and s2: "scan_two ?tmp ?tmp extrinsics_idx0 = Inr e'"
    by auto
  from scan_two_finds [OF subset_refl ex, of extrinsics_idx0] s2
  obtain i where i: "e' = Some i" "i < length ?tmp" by auto
  show ?thesis
    using s3 i by (simp add: reorder_three_def read_index_def Let_def)
qed

theorem three_camera_without_static_raises_witness:
  "reorder_three None None [''Extrinsics'', ''walking1'', ''squats1''] (\<lambda>t. True)
   = Inl (NameError ''static_idx'')"
proof -
  have e: "is_extrinsics ''Extrinsics''" by code_simp
  have s: "\<not> is_static ''Extrinsics''" "\<not> is_static ''walking1''" "\<not> is_static ''squats1''"
    by code_simp+
  have a: "\<exists>t \<in> set [''Extrinsics'', ''walking1'', ''squats1'']. (\<lambda>t. True) t \<and> is_extrinsics t"
    using e by simp
  have b: "\<forall>t \<in> set [''Extrinsics'', ''walking1'', ''squats1'']. (\<lambda>t. True) t \<longrightarrow> \<not> is_static t"
    using s by simp
  from three_camera_without_static_raises [OF a b] show ?thesis .
qed

end
